theory Spec2Isabelle
  imports Main
begin

section \<open>Go library functions that client.go calls\<close>

text \<open>
  Go strings are byte sequences; \<open>string\<close> (a list of 8-bit characters) models them.
  \<open>fmt.Sprintf("%s: %s", a, b)\<close> writes \<open>a\<close>, a colon, a space and \<open>b\<close>.
\<close>

definition Sprintf_s_colon_s :: "string \<Rightarrow> string \<Rightarrow> string" where
  "Sprintf_s_colon_s a b = a @ '': '' @ b"

section \<open>Error model\<close>

text \<open>
  \<open>APIError\<close>, \<open>HTTPErrorResponse\<close> and \<open>ParseAPIErrType\<close> are declared in files of
  the package other than client.go. The fields \<open>Code\<close>, \<open>Message\<close> and \<open>Type\<close> are the
  ones client.go assigns. The type of Go error values (\<open>'x\<close>), the structured error
  body (\<open>'e\<close>) and the classification tag (\<open>'t\<close>) stay abstract, and what client.go
  calls on them is a parameter:
  \<^item> \<open>error_Error\<close>: the method \<open>Error()\<close> of an error value;
  \<^item> \<open>HTTPErrorResponse_NotEmpty\<close>: the method \<open>NotEmpty()\<close>;
  \<^item> \<open>HTTPErrorResponse_String\<close>: the text the verb \<open>%s\<close> prints for the value;
  \<^item> \<open>ParseAPIErrType\<close>: the classification of a (possibly nil) error.
\<close>

record 't APIError =
  Code :: int
  Message :: string
  Type :: 't

record ('x, 'e, 't) models =
  error_Error :: "'x \<Rightarrow> string"
  HTTPErrorResponse_NotEmpty :: "'e \<Rightarrow> bool"
  HTTPErrorResponse_String :: "'e \<Rightarrow> string"
  ParseAPIErrType :: "'x option \<Rightarrow> 't"

text \<open>
  \<open>errors.Wrap(err, message).Error()\<close> of github.com/pkg/errors, for a non-nil \<open>err\<close>:
  the message, a colon, a space and the text of the wrapped error.
\<close>

definition Wrap_Error :: "('x, 'e, 't) models \<Rightarrow> 'x \<Rightarrow> string \<Rightarrow> string" where
  "Wrap_Error m err message = message @ '': '' @ error_Error m err"

section \<open>The response of a round trip\<close>

text \<open>
  What \<open>resp.Error()\<close> returns is an \<open>interface{}\<close>: nil, a pointer to an
  \<open>HTTPErrorResponse\<close>, or a value of another type. The type assertion
  \<open>resp.Error().(*HTTPErrorResponse)\<close> succeeds on the second only. The pointer is the
  one \<open>GetRequest\<close> registers, the address of a local variable, so it is never nil.
\<close>

datatype 'e error_object = Nil | HTTPErrorResponse_ptr 'e | Other_object

fun as_HTTPErrorResponse :: "'e error_object \<Rightarrow> 'e option" where
  "as_HTTPErrorResponse (HTTPErrorResponse_ptr e) = Some e"
| "as_HTTPErrorResponse Nil = None"
| "as_HTTPErrorResponse Other_object = None"

text \<open>
  A \<open>*resty.Response\<close>, by what its accessor methods return: \<open>StatusCode()\<close>,
  \<open>Status()\<close> (the status line, such as "404 Not Found"), \<open>Body()\<close> (a byte slice,
  \<open>None\<close> when the slice is nil) and \<open>Error()\<close>.
\<close>

record 'e Response =
  StatusCode :: int
  Status :: string
  Body :: "string option"
  Error :: "'e error_object"

text \<open>resty v2: \<open>IsError()\<close> is \<open>StatusCode() > 399\<close>, \<open>IsSuccess()\<close> is a code in 200..299.\<close>

definition IsError :: "'e Response \<Rightarrow> bool" where
  "IsError r = (StatusCode r > 399)"

definition IsSuccess :: "'e Response \<Rightarrow> bool" where
  "IsSuccess r = (StatusCode r > 199 \<and> StatusCode r < 300)"

section \<open>checkForError\<close>

text \<open>
  The result is Go's \<open>error\<close>: \<open>None\<close> is nil, \<open>Some a\<close> is a pointer to the
  \<open>APIError\<close> \<open>a\<close>. A field the composite literal leaves out has its zero value.
\<close>

definition checkForError ::
  "('x, 'e, 't) models \<Rightarrow> 'e Response option \<Rightarrow> 'x option \<Rightarrow> string \<Rightarrow> 't APIError option" where
  "checkForError m resp err errMessage =
     (case err of
        Some x \<Rightarrow>
          Some \<lparr>Code = 0, Message = Wrap_Error m x errMessage, Type = ParseAPIErrType m err\<rparr>
      | None \<Rightarrow>
          (case resp of
             None \<Rightarrow>
               Some \<lparr>Code = 0, Message = ''empty response'', Type = ParseAPIErrType m err\<rparr>
           | Some r \<Rightarrow>
               if IsError r then
                 let msg =
                   (case as_HTTPErrorResponse (Error r) of
                      Some e \<Rightarrow>
                        if HTTPErrorResponse_NotEmpty m e
                        then Sprintf_s_colon_s (Status r) (HTTPErrorResponse_String m e)
                        else (case Body r of
                                Some bodyMsg \<Rightarrow> Sprintf_s_colon_s (Status r) bodyMsg
                              | None \<Rightarrow> Status r)
                    | None \<Rightarrow>
                        (case Body r of
                           Some bodyMsg \<Rightarrow> Sprintf_s_colon_s (Status r) bodyMsg
                         | None \<Rightarrow> Status r))
                 in Some \<lparr>Code = StatusCode r, Message = msg, Type = ParseAPIErrType m err\<rparr>
               else None))"

section \<open>Strings and numbers\<close>

text \<open>
  \<open>strings.Join(elems, sep)\<close>: the elements with \<open>sep\<close> between neighbours.
\<close>

fun Join :: "string list \<Rightarrow> string \<Rightarrow> string" where
  "Join [] sep = []"
| "Join [x] sep = x"
| "Join (x # y # ys) sep = x @ sep @ Join (y # ys) sep"

definition urlSeparator :: string where
  "urlSeparator = ''/''"

definition makeURL :: "string list \<Rightarrow> string" where
  "makeURL path = Join path urlSeparator"

text \<open>
  \<open>strings.TrimRight(s, cutset)\<close> for a cutset of ASCII characters (the one call passes
  \<open>urlSeparator\<close>): the loop drops the last byte while it is in the cutset.
\<close>

function TrimRight :: "string \<Rightarrow> string \<Rightarrow> string" where
  "TrimRight s cutset =
     (if s \<noteq> [] \<and> last s \<in> set cutset then TrimRight (butlast s) cutset else s)"
  by pat_completeness auto
termination
  by (relation "measure (\<lambda>(s, cutset). length s)") auto

text \<open>
  \<open>strconv.Itoa(i)\<close>: the decimal digits of the magnitude, most significant first, after
  a minus sign when \<open>i\<close> is negative. Go's \<open>int\<close> is modelled by \<open>int\<close>; nothing in
  client.go does arithmetic on these values.
\<close>

definition digit :: "nat \<Rightarrow> char" where
  "digit d = char_of (48 + d)"

function formatUint :: "nat \<Rightarrow> string" where
  "formatUint n = (if n < 10 then [digit n] else formatUint (n div 10) @ [digit (n mod 10)])"
  by pat_completeness auto
termination
  by (relation "measure (\<lambda>n. n)") auto

definition Itoa :: "int \<Rightarrow> string" where
  "Itoa i = (if i < 0 then CHR ''-'' # formatUint (nat (- i)) else formatUint (nat i))"

text \<open>
  What "a decimal string" denotes, for stating that \<open>Itoa\<close> renders a number in decimal:
  the value of a string of digits read left to right, with an optional leading minus
  sign; \<open>None\<close> for any other string.
\<close>

definition digit_value :: "char \<Rightarrow> nat option" where
  "digit_value c =
     (if 48 \<le> (of_char c :: nat) \<and> (of_char c :: nat) \<le> 57 then Some (of_char c - 48) else None)"

fun digits_value :: "nat \<Rightarrow> string \<Rightarrow> nat option" where
  "digits_value acc [] = Some acc"
| "digits_value acc (c # cs) =
     (case digit_value c of None \<Rightarrow> None | Some d \<Rightarrow> digits_value (10 * acc + d) cs)"

definition decimal_value :: "string \<Rightarrow> int option" where
  "decimal_value s =
     (case s of
        [] \<Rightarrow> None
      | c # cs \<Rightarrow>
          if c = CHR ''-''
          then (if cs = [] then None else map_option (\<lambda>n. - int n) (digits_value 0 cs))
          else map_option int (digits_value 0 s))"




section \<open>Tracing\<close>

text \<open>
  \<open>http.Header\<close> maps a header name to its values; \<open>Set\<close> replaces the values of a
  name by one value. (\<open>Set\<close> writes the canonical form of the name; the names client.go
  passes are in canonical form already.)
\<close>

type_synonym Header = "string \<rightharpoonup> string list"

definition Header_Set :: "Header \<Rightarrow> string \<Rightarrow> string \<Rightarrow> Header" where
  "Header_Set h k v = h(k \<mapsto> [v])"

text \<open>
  Of a \<open>context.Context\<close> client.go reads two things: the active span
  (\<open>opentracing.SpanFromContext(ctx)\<close>, nil when there is none) and the value stored
  under \<open>tracerContextKey\<close>. The type assertion \<open>.(opentracing.Tracer)\<close> succeeds on a
  stored tracer only; when it succeeds the tracer is not a nil interface.
\<close>

datatype 'tr context_value = No_value | Tracer_value 'tr | Other_value

record ('s, 'tr) Context =
  SpanFromContext :: "'s option"
  Value_tracerContextKey :: "'tr context_value"

fun as_Tracer :: "'tr context_value \<Rightarrow> 'tr option" where
  "as_Tracer (Tracer_value t) = Some t"
| "as_Tracer No_value = None"
| "as_Tracer Other_value = None"

text \<open>
  Spans and tracers are interfaces of the opentracing library. \<open>Tracer_Inject\<close> is the
  method \<open>Inject\<close> with the HTTP-headers format and the request's header map as carrier:
  it returns an error or nil, and the map it was handed is the request's own, so what it
  wrote there is in the request whatever it returns. \<open>GlobalTracer\<close> is the process-wide
  tracer.
\<close>

record ('s, 'sc, 'tr, 'x) opentracing =
  Span_Context :: "'s \<Rightarrow> 'sc"
  Tracer_Inject :: "'tr \<Rightarrow> 'sc \<Rightarrow> Header \<Rightarrow> Header \<times> 'x option"
  GlobalTracer :: "'tr"

section \<open>The resty client and its requests\<close>

text \<open>
  A \<open>*resty.Client\<close> is shared and mutated in place, so clients live in a store and
  a handle is an address; \<open>None\<close> is the nil pointer. \<open>Timeout\<close> is a \<open>time.Duration\<close>,
  a number of nanoseconds. The other three fields are the client-level settings that
  resty consults when it writes the token's authorization header.
\<close>

type_synonym ref = nat
type_synonym Duration = int

definition Second :: Duration where
  "Second = 1000000000"

record resty_Client =
  Timeout :: Duration
  client_Token :: string
  client_AuthScheme :: string
  HeaderAuthorizationKey :: string

record heap =
  clients :: "ref \<rightharpoonup> resty_Client"
  next_ref :: ref

datatype panic = NilPointerDereference

text \<open>
  \<open>resty.New()\<close> allocates a client with no timeout, no client-level token or scheme,
  and "Authorization" as the name of the authorization header.
\<close>

definition createClient :: resty_Client where
  "createClient =
     \<lparr>Timeout = 0, client_Token = [], client_AuthScheme = [],
      HeaderAuthorizationKey = ''Authorization''\<rparr>"

definition resty_New :: "heap \<Rightarrow> ref \<times> heap" where
  "resty_New h =
     (next_ref h,
      h\<lparr>clients := (clients h)(next_ref h \<mapsto> createClient), next_ref := Suc (next_ref h)\<rparr>)"

text \<open>\<open>c.SetTimeout(d)\<close> writes the timeout of the client behind the handle.\<close>

definition SetTimeout :: "ref option \<Rightarrow> Duration \<Rightarrow> heap \<Rightarrow> panic + heap" where
  "SetTimeout c d h =
     (case c of
        None \<Rightarrow> Inl NilPointerDereference
      | Some p \<Rightarrow>
          (case clients h p of
             None \<Rightarrow> Inl NilPointerDereference
           | Some v \<Rightarrow> Inr (h\<lparr>clients := (clients h)(p \<mapsto> v\<lparr>Timeout := d\<rparr>)\<rparr>)))"

text \<open>
  A \<open>*resty.Request\<close>: the fields that the builders of client.go set, and the method and
  URL that \<open>Get\<close> and \<open>Post\<close> fill in. \<open>Request_Error\<close> and \<open>Request_Result\<close> are resty's
  \<open>Error\<close> and \<open>Result\<close>: the objects registered as decoding targets of an error body
  (\<open>SetError\<close>) and of a success body (\<open>SetResult\<close>).
\<close>

datatype decode_target = No_target | HTTPErrorResponse_target | ResponseModel_target

record ('s, 'tr) Request =
  Request_client :: ref
  Request_Context :: "('s, 'tr) Context option"
  Request_Error :: decode_target
  Request_Result :: decode_target
  Token :: string
  AuthScheme :: string
  Header :: Header
  FormData :: "string \<rightharpoonup> string list"
  Method :: string
  URL :: string

text \<open>\<open>c.R()\<close>: a fresh request of the client \<open>c\<close>; a nil \<open>c\<close> panics.\<close>

definition Client_R :: "heap \<Rightarrow> ref option \<Rightarrow> panic + ('s, 'tr) Request" where
  "Client_R h c =
     (case c of
        None \<Rightarrow> Inl NilPointerDereference
      | Some p \<Rightarrow>
          (case clients h p of
             None \<Rightarrow> Inl NilPointerDereference
           | Some v \<Rightarrow>
               Inr \<lparr>Request_client = p, Request_Context = None, Request_Error = No_target,
                    Request_Result = No_target, Token = [], AuthScheme = [],
                    Header = Map.empty, FormData = Map.empty, Method = [], URL = []\<rparr>))"

definition SetContext :: "('s, 'tr) Context \<Rightarrow> ('s, 'tr) Request \<Rightarrow> ('s, 'tr) Request" where
  "SetContext ctx r = r\<lparr>Request_Context := Some ctx\<rparr>"

definition SetError :: "decode_target \<Rightarrow> ('s, 'tr) Request \<Rightarrow> ('s, 'tr) Request" where
  "SetError t r = r\<lparr>Request_Error := t\<rparr>"

definition SetAuthToken :: "string \<Rightarrow> ('s, 'tr) Request \<Rightarrow> ('s, 'tr) Request" where
  "SetAuthToken token r = r\<lparr>Token := token\<rparr>"

definition SetHeader :: "string \<Rightarrow> string \<Rightarrow> ('s, 'tr) Request \<Rightarrow> ('s, 'tr) Request" where
  "SetHeader k v r = r\<lparr>Header := Header_Set (Header r) k v\<rparr>"

text \<open>\<open>r.SetFormData(data)\<close>: every entry of \<open>data\<close> replaces the field's values.\<close>

definition SetFormData :: "(string \<rightharpoonup> string) \<Rightarrow> ('s, 'tr) Request \<Rightarrow> ('s, 'tr) Request" where
  "SetFormData data r =
     r\<lparr>FormData := (\<lambda>k. case data k of Some v \<Rightarrow> Some [v] | None \<Rightarrow> FormData r k)\<rparr>"


text \<open>
  The network is outside the program: \<open>respond\<close> gives, for a request, what the round
  trip returns (a response or nil, an error or nil), and \<open>sent\<close> records the requests
  issued, oldest first. \<open>Get\<close> and \<open>Post\<close> are \<open>Execute\<close> with the method's name.
\<close>

record ('s, 'tr, 'e, 'x) network =
  respond :: "('s, 'tr) Request \<Rightarrow> 'e Response option \<times> 'x option"
  sent :: "('s, 'tr) Request list"

definition Execute ::
  "string \<Rightarrow> string \<Rightarrow> ('s, 'tr) Request \<Rightarrow> ('s, 'tr, 'e, 'x) network \<Rightarrow>
   ('e Response option \<times> 'x option) \<times> ('s, 'tr, 'e, 'x) network" where
  "Execute method url r net =
     (let rq = r\<lparr>Method := method, URL := url\<rparr>
      in (respond net rq, net\<lparr>sent := sent net @ [rq]\<rparr>))"

definition Get ::
  "string \<Rightarrow> ('s, 'tr) Request \<Rightarrow> ('s, 'tr, 'e, 'x) network \<Rightarrow>
   ('e Response option \<times> 'x option) \<times> ('s, 'tr, 'e, 'x) network" where
  "Get url r net = Execute ''GET'' url r net"

definition Post ::
  "string \<Rightarrow> ('s, 'tr) Request \<Rightarrow> ('s, 'tr, 'e, 'x) network \<Rightarrow>
   ('e Response option \<times> 'x option) \<times> ('s, 'tr, 'e, 'x) network" where
  "Post url r net = Execute ''POST'' url r net"

section \<open>The client\<close>

text \<open>
  The struct \<open>GoZaya\<close>, with its anonymous \<open>Config\<close> struct as a record of its own. A
  method's receiver is the client's value: a call on a nil \<open>*GoZaya\<close> is not modelled. A
  method that writes through its receiver returns the client it leaves.
\<close>

record GoZaya_Config =
  CreateLinkEndpoint :: string
  GetLinkEndpoint :: string

record GoZaya =
  basePath :: string
  restyClient :: "ref option"
  Config :: GoZaya_Config

text \<open>
  An option is a \<open>func(*GoZaya)\<close>: it may change the client it is handed, and through
  the client's methods the resty client behind it.
\<close>

type_synonym client_option = "GoZaya \<times> heap \<Rightarrow> GoZaya \<times> heap"

fun apply_options :: "client_option list \<Rightarrow> GoZaya \<times> heap \<Rightarrow> GoZaya \<times> heap" where
  "apply_options [] c = c"
| "apply_options (option # options) c = apply_options options (option c)"

definition NewClient :: "string \<Rightarrow> client_option list \<Rightarrow> heap \<Rightarrow> GoZaya \<times> heap" where
  "NewClient base options h =
     (let (p, h) = resty_New h;
          c = \<lparr>basePath = TrimRight base urlSeparator, restyClient = Some p,
               Config = \<lparr>CreateLinkEndpoint = [], GetLinkEndpoint = []\<rparr>\<rparr>;
          c = c\<lparr>Config := (Config c)\<lparr>CreateLinkEndpoint := makeURL [''api'', ''v1'', ''links'']\<rparr>\<rparr>;
          c = c\<lparr>Config := (Config c)\<lparr>GetLinkEndpoint := makeURL [''api'', ''v1'', ''links'']\<rparr>\<rparr>
      in apply_options options (c, h))"

definition RestyClient :: "GoZaya \<Rightarrow> ref option" where
  "RestyClient g = restyClient g"

definition SetRestyClient :: "GoZaya \<Rightarrow> ref option \<Rightarrow> heap \<Rightarrow> panic + GoZaya \<times> heap" where
  "SetRestyClient g rc h =
     (let g = g\<lparr>restyClient := rc\<rparr>
      in case SetTimeout (restyClient g) (30 * Second) h of
           Inl p \<Rightarrow> Inl p
         | Inr h \<Rightarrow> Inr (g, h))"

section \<open>Building requests\<close>

definition injectTracingHeaders ::
  "('s, 'sc, 'tr, 'x) opentracing \<Rightarrow> ('s, 'tr) Context \<Rightarrow> ('s, 'tr) Request \<Rightarrow> ('s, 'tr) Request" where
  "injectTracingHeaders ot ctx req =
     (case SpanFromContext ctx of
        None \<Rightarrow> req
      | Some span \<Rightarrow>
          let tracer =
                (case as_Tracer (Value_tracerContextKey ctx) of
                   None \<Rightarrow> GlobalTracer ot
                 | Some t \<Rightarrow> t);
              (h, err) = Tracer_Inject ot tracer (Span_Context ot span) (Header req);
              req = req\<lparr>Header := h\<rparr>
          in (case err of Some x \<Rightarrow> req | None \<Rightarrow> req))"

definition GetRequest ::
  "('s, 'sc, 'tr, 'x) opentracing \<Rightarrow> heap \<Rightarrow> GoZaya \<Rightarrow> ('s, 'tr) Context \<Rightarrow>
   panic + ('s, 'tr) Request" where
  "GetRequest ot h g ctx =
     (case Client_R h (restyClient g) of
        Inl p \<Rightarrow> Inl p
      | Inr r \<Rightarrow>
          Inr (injectTracingHeaders ot ctx (SetError HTTPErrorResponse_target (SetContext ctx r))))"

definition GetRequestWithBearerAuthNoCache ::
  "('s, 'sc, 'tr, 'x) opentracing \<Rightarrow> heap \<Rightarrow> GoZaya \<Rightarrow> ('s, 'tr) Context \<Rightarrow> string \<Rightarrow>
   panic + ('s, 'tr) Request" where
  "GetRequestWithBearerAuthNoCache ot h g ctx token =
     (case GetRequest ot h g ctx of
        Inl p \<Rightarrow> Inl p
      | Inr r \<Rightarrow>
          Inr (SetHeader ''Cache-Control'' ''no-cache''
                (SetHeader ''Content-Type'' ''application/json'' (SetAuthToken token r))))"

definition GetRequestWithBearerAuth ::
  "('s, 'sc, 'tr, 'x) opentracing \<Rightarrow> heap \<Rightarrow> GoZaya \<Rightarrow> ('s, 'tr) Context \<Rightarrow> string \<Rightarrow>
   panic + ('s, 'tr) Request" where
  "GetRequestWithBearerAuth ot h g ctx token =
     (case GetRequest ot h g ctx of
        Inl p \<Rightarrow> Inl p
      | Inr r \<Rightarrow> Inr (SetHeader ''Content-Type'' ''application/json'' (SetAuthToken token r)))"

definition GetRequestFormData ::
  "('s, 'sc, 'tr, 'x) opentracing \<Rightarrow> heap \<Rightarrow> GoZaya \<Rightarrow> ('s, 'tr) Context \<Rightarrow> string \<Rightarrow>
   panic + ('s, 'tr) Request" where
  "GetRequestFormData ot h g ctx token =
     (case GetRequest ot h g ctx of
        Inl p \<Rightarrow> Inl p
      | Inr r \<Rightarrow>
          Inr (SetHeader ''Content-Type'' ''application/x-www-form-urlencoded''
                (SetAuthToken token r)))"

section \<open>CreateLink and GetLink\<close>

text \<open>
  \<open>GenerateLinkRequest\<close> is declared outside client.go; these are the fields that
  \<open>CreateLink\<close> reads, the four passed to \<open>strconv.Itoa\<close> being of type \<open>int\<close>.
\<close>

record GenerateLinkRequest =
  Url :: string
  Alias :: string
  Password :: string
  Disable :: int
  Public :: int
  Description :: string
  ExpirationDate :: string
  ExpirationTime :: string
  ExpirationClicks :: int
  Domain' :: int
  ExpirationUrl :: string

text \<open>The statement \<open>if cond { form[key] = value }\<close>.\<close>

definition assign_if ::
  "bool \<Rightarrow> string \<Rightarrow> string \<Rightarrow> (string \<rightharpoonup> string) \<Rightarrow> (string \<rightharpoonup> string)" where
  "assign_if cond key v form = (if cond then form(key \<mapsto> v) else form)"

text \<open>The map \<open>form\<close> of \<open>CreateLink\<close>, as it stands when the request is built.\<close>

definition CreateLink_form :: "GenerateLinkRequest \<Rightarrow> (string \<rightharpoonup> string)" where
  "CreateLink_form link =
     (let form = Map.empty;
          form = assign_if (Url link \<noteq> []) ''url'' (Url link) form;
          form = assign_if (Alias link \<noteq> []) ''alias'' (Alias link) form;
          form = assign_if (Password link \<noteq> []) ''password'' (Password link) form;
          form = assign_if (Disable link \<noteq> 0) ''disable'' (Itoa (Disable link)) form;
          form = assign_if (Public link \<noteq> 0) ''public'' (Itoa (Public link)) form;
          form = assign_if (Description link \<noteq> []) ''description'' (Description link) form;
          form = assign_if (ExpirationDate link \<noteq> []) ''expiration_date'' (ExpirationDate link) form;
          form = assign_if (ExpirationTime link \<noteq> []) ''expiration_time'' (ExpirationTime link) form;
          form = assign_if (ExpirationClicks link \<noteq> 0) ''expiration_clicks''
                   (Itoa (ExpirationClicks link)) form;
          form = assign_if (Domain' link \<noteq> 0) ''domain'' (Itoa (Domain' link)) form;
          form = assign_if (ExpirationUrl link \<noteq> []) ''expiration_url'' (ExpirationUrl link) form
      in form)"

text \<open>
  The results are Go's pair \<open>(*ResponseModel, error)\<close>, each \<open>None\<close> when nil, with the
  network after the call. \<open>result\<close> is the value of \<open>var result ResponseModel\<close>, the
  zero value of a type declared outside client.go. A nil \<open>link\<close> panics where its
  first field is read.
\<close>

definition CreateLink ::
  "('x, 'e, 't) models \<Rightarrow> ('s, 'sc, 'tr, 'x) opentracing \<Rightarrow> 'r \<Rightarrow> heap \<Rightarrow>
   ('s, 'tr, 'e, 'x) network \<Rightarrow> GoZaya \<Rightarrow> ('s, 'tr) Context \<Rightarrow> string \<Rightarrow>
   GenerateLinkRequest option \<Rightarrow>
   panic + ('r option \<times> 't APIError option) \<times> ('s, 'tr, 'e, 'x) network" where
  "CreateLink m ot result h net g ctx token link =
     (case link of
        None \<Rightarrow> Inl NilPointerDereference
      | Some l \<Rightarrow>
          let form = CreateLink_form l
          in (case GetRequestFormData ot h g ctx token of
                Inl p \<Rightarrow> Inl p
              | Inr r \<Rightarrow>
                  let ((resp, err), net) =
                        Post (basePath g @ ''/'' @ CreateLinkEndpoint (Config g))
                          (SetFormData form r) net
                  in (case checkForError m resp err ''failed to create link'' of
                        Some err \<Rightarrow> Inr ((None, Some err), net)
                      | None \<Rightarrow> Inr ((Some result, None), net))))"

definition GetLink ::
  "('x, 'e, 't) models \<Rightarrow> ('s, 'sc, 'tr, 'x) opentracing \<Rightarrow> 'r \<Rightarrow> heap \<Rightarrow>
   ('s, 'tr, 'e, 'x) network \<Rightarrow> GoZaya \<Rightarrow> ('s, 'tr) Context \<Rightarrow> string \<Rightarrow> string \<Rightarrow>
   panic + ('r option \<times> 't APIError option) \<times> ('s, 'tr, 'e, 'x) network" where
  "GetLink m ot result h net g ctx token id' =
     (case GetRequestWithBearerAuthNoCache ot h g ctx token of
        Inl p \<Rightarrow> Inl p
      | Inr r \<Rightarrow>
          let ((resp, err), net) =
                Get (basePath g @ ''/'' @ GetLinkEndpoint (Config g) @ ''/'' @ id') r net
          in (case checkForError m resp err ''failed to get link'' of
                Some err \<Rightarrow> Inr ((None, Some err), net)
              | None \<Rightarrow> Inr ((Some result, None), net)))"


text \<open>
  The eleven form field names that the specification lists for a create request, for
  stating which keys a form may hold.
\<close>

definition form_field_names :: "string list" where
  "form_field_names =
     [''url'', ''alias'', ''password'', ''disable'', ''public'', ''description'',
      ''expiration_date'', ''expiration_time'', ''expiration_clicks'', ''domain'',
      ''expiration_url'']"

section \<open>Example values\<close>

text \<open>
  Concrete inputs on which the properties below are run. In the examples a Go error
  value is its text, a structured error body is the text it prints as (empty when the
  body is empty), and there is one classification tag.
\<close>

definition example_models :: "(string, string, unit) models" where
  "example_models =
     \<lparr>error_Error = (\<lambda>x. x), HTTPErrorResponse_NotEmpty = (\<lambda>e. e \<noteq> []),
      HTTPErrorResponse_String = (\<lambda>e. e), ParseAPIErrType = (\<lambda>x. ())\<rparr>"

definition response_404_structured :: "string Response" where
  "response_404_structured =
     \<lparr>StatusCode = 404, Status = ''404 Not Found'', Body = Some ''error=no such link'',
      Error = HTTPErrorResponse_ptr ''no such link''\<rparr>"

definition response_500_raw :: "string Response" where
  "response_500_raw =
     \<lparr>StatusCode = 500, Status = ''500 Internal Server Error'', Body = Some ''boom'',
      Error = HTTPErrorResponse_ptr []\<rparr>"

definition response_502_nil_body :: "string Response" where
  "response_502_nil_body =
     \<lparr>StatusCode = 502, Status = ''502 Bad Gateway'', Body = None,
      Error = HTTPErrorResponse_ptr []\<rparr>"

definition response_304 :: "string Response" where
  "response_304 =
     \<lparr>StatusCode = 304, Status = ''304 Not Modified'', Body = Some [],
      Error = HTTPErrorResponse_ptr []\<rparr>"

definition response_404_empty_body :: "string Response" where
  "response_404_empty_body =
     \<lparr>StatusCode = 404, Status = ''404 Not Found'', Body = Some [],
      Error = HTTPErrorResponse_ptr []\<rparr>"

text \<open>
  An empty store; two options, each setting one endpoint; a store that holds a resty
  client configured with a timeout of five seconds; a tracing library in which a span
  and its context are the span's name, a tracer is its name, the tracer "failing" returns
  an error and any other tracer writes one header; a fresh request; the client that
  \<open>NewClient\<close> builds for "https://zaya.io/"; a context with an active span and no
  tracer; a network that answers every request alike; a successful response; the zero
  value of a result type; and two link requests.
\<close>

definition example_heap :: heap where
  "example_heap = \<lparr>clients = Map.empty, next_ref = 0\<rparr>"

definition example_option_create :: client_option where
  "example_option_create c =
     ((fst c)\<lparr>Config := (Config (fst c))\<lparr>CreateLinkEndpoint := ''api/v2/links''\<rparr>\<rparr>, snd c)"

definition example_option_get :: client_option where
  "example_option_get c =
     ((fst c)\<lparr>Config := (Config (fst c))\<lparr>GetLinkEndpoint := ''api/v2/link''\<rparr>\<rparr>, snd c)"

definition example_heap_with_client :: heap where
  "example_heap_with_client =
     \<lparr>clients = [5 \<mapsto> \<lparr>Timeout = 5 * Second, client_Token = [], client_AuthScheme = [],
                         HeaderAuthorizationKey = ''Authorization''\<rparr>],
      next_ref = 6\<rparr>"

definition example_opentracing :: "(string, string, string, string) opentracing" where
  "example_opentracing =
     \<lparr>Span_Context = (\<lambda>span. span),
      Tracer_Inject =
        (\<lambda>tracer sc h.
           if tracer = ''failing'' then (h, Some ''unsupported format'')
           else (h(''Trace-Id'' \<mapsto> [tracer @ '':'' @ sc]), None)),
      GlobalTracer = ''global''\<rparr>"


definition example_client :: "GoZaya \<times> heap" where
  "example_client = NewClient ''https://zaya.io/'' [] example_heap"

definition example_ctx :: "(string, string) Context" where
  "example_ctx = \<lparr>SpanFromContext = Some ''span-1'', Value_tracerContextKey = No_value\<rparr>"

definition example_network ::
  "string Response option \<times> string option \<Rightarrow> (string, string, string, string) network" where
  "example_network outcome = \<lparr>respond = (\<lambda>rq. outcome), sent = []\<rparr>"

definition response_200 :: "string Response" where
  "response_200 =
     \<lparr>StatusCode = 200, Status = ''200 OK'', Body = Some ''id=17&alias=ex'',
      Error = HTTPErrorResponse_ptr []\<rparr>"

definition example_zero_ResponseModel :: "int \<times> string" where
  "example_zero_ResponseModel = (0, [])"

definition example_link_url_only :: GenerateLinkRequest where
  "example_link_url_only =
     \<lparr>Url = ''https://example.com'', Alias = [], Password = [], Disable = 0, Public = 0,
      Description = [], ExpirationDate = [], ExpirationTime = [], ExpirationClicks = 0,
      Domain' = 0, ExpirationUrl = []\<rparr>"

definition example_link_all :: GenerateLinkRequest where
  "example_link_all =
     \<lparr>Url = ''https://example.com'', Alias = ''ex'', Password = ''secret'', Disable = 1,
      Public = 1, Description = ''an example'', ExpirationDate = ''2030-01-01'',
      ExpirationTime = ''12:00'', ExpirationClicks = 250, Domain' = 7,
      ExpirationUrl = ''https://example.com/expired''\<rparr>"

section \<open>Properties\<close>

declare formatUint.simps [simp del]
declare TrimRight.simps [simp del]

subsection \<open>checkForError\<close>

text \<open>
  C1, as the code has it. A response is an HTTP-level error when resty's \<open>IsError\<close> holds,
  that is for a status code of 400 or more; for any other code \<open>checkForError\<close> returns
  nil. For an error response the \<open>APIError\<close> carries the status code, and its message is
  the status line, a colon, a space and the structured error body when that body was
  decoded and is not empty; otherwise the status line, a colon, a space and the raw body
  when the body is not empty; and the status line alone when the body slice is nil.
\<close>

theorem checkForError_http_error:
  "(399 < StatusCode r \<longrightarrow>
      (\<exists>a. checkForError m (Some r) None errMessage = Some a \<and> Code a = StatusCode r \<and>
         (\<forall>e. as_HTTPErrorResponse (Error r) = Some e \<and> HTTPErrorResponse_NotEmpty m e \<longrightarrow>
              Message a = Status r @ '': '' @ HTTPErrorResponse_String m e) \<and>
         ((\<forall>e. as_HTTPErrorResponse (Error r) = Some e \<longrightarrow> \<not> HTTPErrorResponse_NotEmpty m e) \<longrightarrow>
              (\<forall>b. Body r = Some b \<and> b \<noteq> [] \<longrightarrow> Message a = Status r @ '': '' @ b) \<and>
              (Body r = None \<longrightarrow> Message a = Status r)))) \<and>
   (StatusCode r \<le> 399 \<longrightarrow> checkForError m (Some r) None errMessage = None)"
  by (auto simp: checkForError_def IsError_def Sprintf_s_colon_s_def Let_def
           split: option.splits)

theorem checkForError_http_error_witness:
  "(\<exists>a. checkForError example_models (Some response_404_structured) None ''failed to get link'' = Some a
        \<and> Code a = 404 \<and> Message a = ''404 Not Found: no such link'') \<and>
   (\<exists>a. checkForError example_models (Some response_500_raw) None ''failed to get link'' = Some a
        \<and> Code a = 500 \<and> Message a = ''500 Internal Server Error: boom'') \<and>
   (\<exists>a. checkForError example_models (Some response_502_nil_body) None ''failed to get link'' = Some a
        \<and> Code a = 502 \<and> Message a = ''502 Bad Gateway'') \<and>
   checkForError example_models (Some response_304) None ''failed to get link'' = None"
  using checkForError_http_error [of response_404_structured example_models "''failed to get link''"]
        checkForError_http_error [of response_500_raw example_models "''failed to get link''"]
        checkForError_http_error [of response_502_nil_body example_models "''failed to get link''"]
        checkForError_http_error [of response_304 example_models "''failed to get link''"]
  by (simp add: example_models_def response_404_structured_def response_500_raw_def
        response_502_nil_body_def response_304_def)

text \<open>
  C1 as stated fails twice. A response with status 304 is not a 2xx response, yet
  \<open>checkForError\<close> returns nil for it. And for a 404 response whose body was read and
  is empty (an empty slice, not a nil one) the message is the status line followed by a
  colon and a space, not the status line alone.
\<close>

theorem checkForError_http_error_counterexample:
  "checkForError example_models (Some response_304) None ''failed to get link'' = None \<and>
   map_option Message
     (checkForError example_models (Some response_404_empty_body) None ''failed to get link'')
     = Some ''404 Not Found: ''"
  by (simp add: checkForError_def IsError_def Sprintf_s_colon_s_def example_models_def
        response_304_def response_404_empty_body_def)

text \<open>
  C2: with a transport error, whatever the response, the \<open>APIError\<close> has code 0 and its
  message is the context message, a colon, a space and the text of the transport error.
\<close>

theorem checkForError_transport_error:
  "checkForError m resp (Some x) errMessage =
     Some \<lparr>Code = 0, Message = errMessage @ '': '' @ error_Error m x,
           Type = ParseAPIErrType m (Some x)\<rparr>"
  by (simp add: checkForError_def Wrap_Error_def)

text \<open>
  C3: with no response and no transport error, the \<open>APIError\<close> has code 0 and the
  message "empty response".
\<close>

theorem checkForError_empty_response:
  "checkForError m None None errMessage =
     Some \<lparr>Code = 0, Message = ''empty response'', Type = ParseAPIErrType m None\<rparr>"
  by (simp add: checkForError_def)

subsection \<open>Decimal rendering\<close>

lemma digit_value_digit: "d < 10 \<Longrightarrow> digit_value (digit d) = Some d"
  by (simp add: digit_value_def digit_def)

lemma digits_value_append:
  "digits_value acc (xs @ [c]) =
     (case digits_value acc xs of
        None \<Rightarrow> None
      | Some v \<Rightarrow> (case digit_value c of None \<Rightarrow> None | Some d \<Rightarrow> Some (10 * v + d)))"
  by (induction xs arbitrary: acc) (auto split: option.splits)

lemma digits_value_formatUint: "digits_value 0 (formatUint n) = Some n"
proof (induction n rule: formatUint.induct)
  case (1 n)
  show ?case
  proof (cases "n < 10")
    case True
    then show ?thesis
      by (subst formatUint.simps) (simp add: digit_value_digit)
  next
    case False
    with 1 have "digits_value 0 (formatUint (n div 10)) = Some (n div 10)"
      by simp
    with False show ?thesis
      by (subst formatUint.simps) (simp add: digits_value_append digit_value_digit)
  qed
qed

lemma formatUint_not_empty: "formatUint n \<noteq> []"
  by (subst formatUint.simps) simp

lemma formatUint_hd_digit: "\<exists>c cs. formatUint n = c # cs \<and> digit_value c \<noteq> None"
proof (induction n rule: formatUint.induct)
  case (1 n)
  show ?case
  proof (cases "n < 10")
    case True
    then have "formatUint n = [digit n]"
      by (subst formatUint.simps) simp
    with True show ?thesis
      by (simp add: digit_value_digit)
  next
    case False
    with 1 obtain c cs where f: "formatUint (n div 10) = c # cs" and d: "digit_value c \<noteq> None"
      by blast
    from False have "formatUint n = formatUint (n div 10) @ [digit (n mod 10)]"
      by (subst formatUint.simps) simp
    with f have "formatUint n = c # (cs @ [digit (n mod 10)])"
      by simp
    with d show ?thesis
      by blast
  qed
qed

lemma digit_value_minus: "digit_value CHR ''-'' = None"
  by (simp add: digit_value_def)

lemma decimal_value_digit_first:
  assumes "digit_value c \<noteq> None"
  shows "decimal_value (c # cs) = map_option int (digits_value 0 (c # cs))"
proof -
  from assms have "c \<noteq> CHR ''-''"
    using digit_value_minus by blast
  then show ?thesis
    unfolding decimal_value_def by simp
qed

lemma decimal_value_minus_first:
  "cs \<noteq> [] \<Longrightarrow> decimal_value (CHR ''-'' # cs) = map_option (\<lambda>n. - int n) (digits_value 0 cs)"
  unfolding decimal_value_def by simp

lemma decimal_value_Itoa: "decimal_value (Itoa i) = Some i"
proof (cases "i < 0")
  case True
  then have "Itoa i = CHR ''-'' # formatUint (nat (- i))"
    by (simp add: Itoa_def)
  with True show ?thesis
    by (simp add: decimal_value_minus_first formatUint_not_empty digits_value_formatUint)
next
  case False
  obtain c cs where f: "formatUint (nat i) = c # cs" and d: "digit_value c \<noteq> None"
    using formatUint_hd_digit by blast
  from False have "Itoa i = formatUint (nat i)"
    by (simp add: Itoa_def)
  then have "decimal_value (Itoa i) = map_option int (digits_value 0 (formatUint (nat i)))"
    using decimal_value_digit_first [OF d, of cs] f by simp
  with False show ?thesis
    by (simp add: digits_value_formatUint)
qed

lemma Itoa_examples: "Itoa 1 = ''1''" "Itoa 7 = ''7''" "Itoa 250 = ''250''"
  by code_simp+

subsection \<open>Trimming the base path\<close>

lemma TrimRight_replicate: "\<exists>n. s = TrimRight s [c] @ replicate n c"
proof (induction s "[c]" rule: TrimRight.induct)
  case (1 s)
  show ?case
  proof (cases "s \<noteq> [] \<and> last s \<in> set [c]")
    case True
    with 1 obtain n where n: "butlast s = TrimRight (butlast s) [c] @ replicate n c"
      by blast
    from True have "s = butlast s @ [c]"
      by (metis append_butlast_last_id empty_iff empty_set set_ConsD)
    with n have "s = TrimRight (butlast s) [c] @ replicate (Suc n) c"
      by (metis append.assoc replicate_append_same replicate_Suc)
    moreover from True have "TrimRight s [c] = TrimRight (butlast s) [c]"
      by (subst TrimRight.simps) simp
    ultimately show ?thesis
      by metis
  next
    case False
    then have "TrimRight s [c] = s"
      by (subst TrimRight.simps) auto
    then have "s = TrimRight s [c] @ replicate 0 c"
      by simp
    then show ?thesis
      by blast
  qed
qed

lemma TrimRight_last: "TrimRight s cutset = [] \<or> last (TrimRight s cutset) \<notin> set cutset"
proof (induction s cutset rule: TrimRight.induct)
  case (1 s cutset)
  show ?case
  proof (cases "s \<noteq> [] \<and> last s \<in> set cutset")
    case True
    then have "TrimRight s cutset = TrimRight (butlast s) cutset"
      by (subst TrimRight.simps) simp
    with 1 True show ?thesis
      by simp
  next
    case False
    then have "TrimRight s cutset = s"
      by (subst TrimRight.simps) auto
    with False show ?thesis
      by auto
  qed
qed

lemma TrimRight_example: "TrimRight ''https://zaya.io/'' ''/'' = ''https://zaya.io''"
  by (simp add: TrimRight.simps)

lemma makeURL_links: "makeURL [''api'', ''v1'', ''links''] = ''api/v1/links''"
  by (simp add: makeURL_def urlSeparator_def)

subsection \<open>Construction\<close>

lemma NewClient_no_options:
  "NewClient base [] h =
     (\<lparr>basePath = TrimRight base ''/'', restyClient = Some (next_ref h),
       Config = \<lparr>CreateLinkEndpoint = ''api/v1/links'', GetLinkEndpoint = ''api/v1/links''\<rparr>\<rparr>,
      h\<lparr>clients := (clients h)(next_ref h \<mapsto> createClient), next_ref := Suc (next_ref h)\<rparr>)"
  by (simp add: NewClient_def resty_New_def makeURL_links urlSeparator_def)

lemma apply_options_append:
  "apply_options (xs @ ys) c = apply_options ys (apply_options xs c)"
  by (induction xs arbitrary: c) simp_all

lemma NewClient_apply_options:
  "NewClient base options h = apply_options options (NewClient base [] h)"
  by (simp add: NewClient_def Let_def case_prod_beta)

lemma apply_options_basePath:
  "\<forall>option \<in> set options. \<forall>c. basePath (fst (option c)) = basePath (fst c) \<Longrightarrow>
     basePath (fst (apply_options options c)) = basePath (fst c)"
proof (induction options arbitrary: c)
  case Nil
  show ?case by simp
next
  case (Cons option options)
  from Cons.prems have step: "basePath (fst (option c)) = basePath (fst c)"
    by (metis list.set_intros(1))
  from Cons.prems have "\<forall>option \<in> set options. \<forall>c. basePath (fst (option c)) = basePath (fst c)"
    by (metis list.set_intros(2))
  then have "basePath (fst (apply_options options (option c))) = basePath (fst (option c))"
    by (rule Cons.IH)
  with step show ?case
    by simp
qed

lemma example_client_eq:
  "example_client =
     (\<lparr>basePath = ''https://zaya.io'', restyClient = Some 0,
       Config = \<lparr>CreateLinkEndpoint = ''api/v1/links'', GetLinkEndpoint = ''api/v1/links''\<rparr>\<rparr>,
      \<lparr>clients = [0 \<mapsto> createClient], next_ref = Suc 0\<rparr>)"
  by (simp add: example_client_def NewClient_no_options TrimRight_example example_heap_def)

text \<open>
  C5: \<open>NewClient\<close> removes trailing separators from the base path and nothing else (the
  argument is the stored path followed by separators only, and the stored path does not
  end with one), sets both endpoints to "api/v1/links", and runs the options in order on
  the client so prepared: a further option at the end of the list is applied to the
  client that the options before it produced. The stored base path is the trimmed one
  whenever no option assigns the field, which is unexported.
\<close>

theorem NewClient_defaults_then_options:
  "(\<exists>n. base = basePath (fst (NewClient base [] h)) @ replicate n CHR ''/'') \<and>
   (basePath (fst (NewClient base [] h)) = [] \<or>
      last (basePath (fst (NewClient base [] h))) \<noteq> CHR ''/'') \<and>
   CreateLinkEndpoint (Config (fst (NewClient base [] h))) = ''api/v1/links'' \<and>
   GetLinkEndpoint (Config (fst (NewClient base [] h))) = ''api/v1/links'' \<and>
   NewClient base (options @ [option]) h = option (NewClient base options h) \<and>
   ((\<forall>option \<in> set options. \<forall>c. basePath (fst (option c)) = basePath (fst c)) \<longrightarrow>
      basePath (fst (NewClient base options h)) = basePath (fst (NewClient base [] h)))"
proof -
  have "\<exists>n. base = basePath (fst (NewClient base [] h)) @ replicate n CHR ''/''"
    using TrimRight_replicate [of base "CHR ''/''"] by (simp add: NewClient_no_options)
  moreover have "basePath (fst (NewClient base [] h)) = [] \<or>
      last (basePath (fst (NewClient base [] h))) \<noteq> CHR ''/''"
    using TrimRight_last [of base "''/''"] by (simp add: NewClient_no_options)
  moreover have "NewClient base (options @ [option]) h = option (NewClient base options h)"
    by (simp add: NewClient_apply_options [of base "options @ [option]"]
          NewClient_apply_options [of base options] apply_options_append)
  moreover have "(\<forall>option \<in> set options. \<forall>c. basePath (fst (option c)) = basePath (fst c)) \<longrightarrow>
      basePath (fst (NewClient base options h)) = basePath (fst (NewClient base [] h))"
    using apply_options_basePath [of options "NewClient base [] h"]
    by (simp add: NewClient_apply_options [of base options])
  ultimately show ?thesis
    by (simp add: NewClient_no_options)
qed

theorem NewClient_defaults_then_options_witness:
  "basePath (fst (NewClient ''https://zaya.io/'' [] example_heap)) = ''https://zaya.io'' \<and>
   CreateLinkEndpoint (Config (fst (NewClient ''https://zaya.io/'' [] example_heap))) = ''api/v1/links'' \<and>
   GetLinkEndpoint (Config (fst (NewClient ''https://zaya.io/'' [] example_heap))) = ''api/v1/links'' \<and>
   NewClient ''https://zaya.io/'' ([example_option_create] @ [example_option_get]) example_heap =
     example_option_get (NewClient ''https://zaya.io/'' [example_option_create] example_heap) \<and>
   basePath (fst (NewClient ''https://zaya.io/'' [example_option_create, example_option_get] example_heap))
     = ''https://zaya.io''"
proof -
  have keep: "\<forall>option \<in> set [example_option_create, example_option_get].
                \<forall>c. basePath (fst (option c)) = basePath (fst c)"
    by (simp add: example_option_create_def example_option_get_def)
  have base: "basePath (fst (NewClient ''https://zaya.io/'' [] example_heap)) = ''https://zaya.io''"
    by (simp add: NewClient_no_options TrimRight_example)
  have order: "NewClient ''https://zaya.io/'' ([example_option_create] @ [example_option_get]) example_heap =
      example_option_get (NewClient ''https://zaya.io/'' [example_option_create] example_heap)"
    using NewClient_defaults_then_options
            [of "''https://zaya.io/''" example_heap "[example_option_create]" example_option_get]
    by blast
  have "basePath (fst (NewClient ''https://zaya.io/'' [example_option_create, example_option_get] example_heap))
          = basePath (fst (NewClient ''https://zaya.io/'' [] example_heap))"
    using NewClient_defaults_then_options
            [of "''https://zaya.io/''" example_heap "[example_option_create, example_option_get]"]
          keep
    by blast
  with base order show ?thesis
    by (simp add: NewClient_no_options)
qed

text \<open>
  C6: for a handle to a resty client, \<open>SetRestyClient\<close> makes that handle the client's
  transport handle and sets the timeout of the client behind it to 30 seconds, whatever
  the timeout was; the client's other fields and the other resty clients are unchanged.
\<close>

theorem SetRestyClient_timeout:
  assumes "clients h p = Some c"
  shows "\<exists>g' h'. SetRestyClient g (Some p) h = Inr (g', h') \<and>
           restyClient g' = Some p \<and>
           clients h' p = Some (c\<lparr>Timeout := 30 * Second\<rparr>) \<and>
           map_option Timeout (clients h' p) = Some (30 * Second) \<and>
           basePath g' = basePath g \<and> Config g' = Config g \<and>
           (\<forall>q. q \<noteq> p \<longrightarrow> clients h' q = clients h q)"
  using assms by (simp add: SetRestyClient_def SetTimeout_def)

theorem SetRestyClient_timeout_witness:
  "\<exists>g' h'. SetRestyClient (fst (NewClient ''https://zaya.io/'' [] example_heap)) (Some 5)
              example_heap_with_client = Inr (g', h') \<and>
           restyClient g' = Some 5 \<and>
           map_option Timeout (clients h' 5) = Some 30000000000"
proof -
  have "clients example_heap_with_client 5 =
          Some \<lparr>Timeout = 5 * Second, client_Token = [], client_AuthScheme = [],
                HeaderAuthorizationKey = ''Authorization''\<rparr>"
    by (simp add: example_heap_with_client_def)
  from SetRestyClient_timeout [OF this, of "fst (NewClient ''https://zaya.io/'' [] example_heap)"]
  show ?thesis
    by (auto simp: Second_def)
qed

subsection \<open>Tracing headers\<close>




subsection \<open>The requests of CreateLink and GetLink\<close>

lemma GetRequest_Inr:
  assumes "restyClient g = Some p" and "clients h p = Some c"
  shows "\<exists>hd. GetRequest ot h g ctx =
           Inr \<lparr>Request_client = p, Request_Context = Some ctx,
                Request_Error = HTTPErrorResponse_target, Request_Result = No_target,
                Token = [], AuthScheme = [], Header = hd, FormData = Map.empty,
                Method = [], URL = []\<rparr>"
  using assms
  by (auto simp: GetRequest_def Client_R_def SetError_def SetContext_def
        injectTracingHeaders_def Let_def split: option.splits prod.splits)

lemma GetRequest_Inr_valid:
  "GetRequest ot h g ctx = Inr r \<Longrightarrow> \<exists>p c. restyClient g = Some p \<and> clients h p = Some c"
  by (auto simp: GetRequest_def Client_R_def split: option.splits sum.splits)

lemma SetFormData_fresh:
  "FormData r = Map.empty \<Longrightarrow>
     SetFormData form r = r\<lparr>FormData := (\<lambda>k. map_option (\<lambda>v. [v]) (form k))\<rparr>"
  by (auto simp: SetFormData_def fun_eq_iff split: option.splits)

lemma GetLink_Inr_valid:
  "GetLink m ot result h net g ctx token i = Inr res \<Longrightarrow>
     \<exists>p c. restyClient g = Some p \<and> clients h p = Some c"
  by (auto simp: GetLink_def GetRequestWithBearerAuthNoCache_def
        split: sum.splits dest: GetRequest_Inr_valid)

lemma CreateLink_Inr_valid:
  "CreateLink m ot result h net g ctx token link = Inr res \<Longrightarrow>
     \<exists>l p c. link = Some l \<and> restyClient g = Some p \<and> clients h p = Some c"
  by (auto simp: CreateLink_def GetRequestFormData_def Let_def
        split: sum.splits option.splits dest: GetRequest_Inr_valid)

lemma GetLink_returns:
  assumes "restyClient g = Some p" and "clients h p = Some c"
  shows "\<exists>out net' rq. GetLink m ot result h net g ctx token i = Inr (out, net') \<and>
           sent net' = sent net @ [rq] \<and>
           out = (case checkForError m (fst (respond net rq)) (snd (respond net rq))
                         ''failed to get link'' of
                    Some e \<Rightarrow> (None, Some e) | None \<Rightarrow> (Some result, None)) \<and>
           Request_client rq = p \<and> Request_Result rq = No_target \<and>
           Request_Error rq = HTTPErrorResponse_target \<and>
           Token rq = token \<and> AuthScheme rq = [] \<and>
           Header rq ''Content-Type'' = Some [''application/json''] \<and>
           Header rq ''Cache-Control'' = Some [''no-cache''] \<and>
           Method rq = ''GET'' \<and>
           URL rq = basePath g @ ''/'' @ GetLinkEndpoint (Config g) @ ''/'' @ i"
proof -
  from GetRequest_Inr [OF assms, of ot ctx] obtain hd where gr:
    "GetRequest ot h g ctx =
       Inr \<lparr>Request_client = p, Request_Context = Some ctx,
            Request_Error = HTTPErrorResponse_target, Request_Result = No_target,
            Token = [], AuthScheme = [], Header = hd, FormData = Map.empty,
            Method = [], URL = []\<rparr>"
    by blast
  define rq where
    "rq = \<lparr>Request_client = p, Request_Context = Some ctx,
            Request_Error = HTTPErrorResponse_target, Request_Result = No_target,
            Token = token, AuthScheme = [],
            Header = hd(''Content-Type'' \<mapsto> [''application/json''],
                        ''Cache-Control'' \<mapsto> [''no-cache'']),
            FormData = Map.empty, Method = ''GET'',
            URL = basePath g @ ''/'' @ GetLinkEndpoint (Config g) @ ''/'' @ i\<rparr>"
  have run: "GetLink m ot result h net g ctx token i =
           (case checkForError m (fst (respond net rq)) (snd (respond net rq))
                   ''failed to get link'' of
              Some e \<Rightarrow> Inr ((None, Some e), net\<lparr>sent := sent net @ [rq]\<rparr>)
            | None \<Rightarrow> Inr ((Some result, None), net\<lparr>sent := sent net @ [rq]\<rparr>))"
    by (simp add: gr rq_def GetLink_def GetRequestWithBearerAuthNoCache_def SetHeader_def
          SetAuthToken_def Header_Set_def Get_def Execute_def Let_def case_prod_beta
          cong: option.case_cong)
  have fields: "Request_client rq = p \<and> Request_Result rq = No_target \<and>
           Request_Error rq = HTTPErrorResponse_target \<and>
           Token rq = token \<and> AuthScheme rq = [] \<and>
           Header rq ''Content-Type'' = Some [''application/json''] \<and>
           Header rq ''Cache-Control'' = Some [''no-cache''] \<and>
           Method rq = ''GET'' \<and>
           URL rq = basePath g @ ''/'' @ GetLinkEndpoint (Config g) @ ''/'' @ i"
    by (simp add: rq_def)
  show ?thesis
  proof (cases "checkForError m (fst (respond net rq)) (snd (respond net rq)) ''failed to get link''")
    case None
    with run fields show ?thesis by simp
  next
    case (Some e)
    with run fields show ?thesis by simp
  qed
qed

lemma CreateLink_returns:
  assumes "restyClient g = Some p" and "clients h p = Some c"
  shows "\<exists>out net' rq. CreateLink m ot result h net g ctx token (Some l) = Inr (out, net') \<and>
           sent net' = sent net @ [rq] \<and>
           out = (case checkForError m (fst (respond net rq)) (snd (respond net rq))
                         ''failed to create link'' of
                    Some e \<Rightarrow> (None, Some e) | None \<Rightarrow> (Some result, None)) \<and>
           Request_client rq = p \<and> Request_Result rq = No_target \<and>
           Request_Error rq = HTTPErrorResponse_target \<and>
           Token rq = token \<and> AuthScheme rq = [] \<and>
           Header rq ''Content-Type'' = Some [''application/x-www-form-urlencoded''] \<and>
           FormData rq = (\<lambda>k. map_option (\<lambda>v. [v]) (CreateLink_form l k)) \<and>
           Method rq = ''POST'' \<and>
           URL rq = basePath g @ ''/'' @ CreateLinkEndpoint (Config g)"
proof -
  from GetRequest_Inr [OF assms, of ot ctx] obtain hd where gr:
    "GetRequest ot h g ctx =
       Inr \<lparr>Request_client = p, Request_Context = Some ctx,
            Request_Error = HTTPErrorResponse_target, Request_Result = No_target,
            Token = [], AuthScheme = [], Header = hd, FormData = Map.empty,
            Method = [], URL = []\<rparr>"
    by blast
  define rq where
    "rq = \<lparr>Request_client = p, Request_Context = Some ctx,
            Request_Error = HTTPErrorResponse_target, Request_Result = No_target,
            Token = token, AuthScheme = [],
            Header = hd(''Content-Type'' \<mapsto> [''application/x-www-form-urlencoded'']),
            FormData = (\<lambda>k. map_option (\<lambda>v. [v]) (CreateLink_form l k)),
            Method = ''POST'',
            URL = basePath g @ ''/'' @ CreateLinkEndpoint (Config g)\<rparr>"
  have run: "CreateLink m ot result h net g ctx token (Some l) =
           (case checkForError m (fst (respond net rq)) (snd (respond net rq))
                   ''failed to create link'' of
              Some e \<Rightarrow> Inr ((None, Some e), net\<lparr>sent := sent net @ [rq]\<rparr>)
            | None \<Rightarrow> Inr ((Some result, None), net\<lparr>sent := sent net @ [rq]\<rparr>))"
    by (simp add: gr rq_def CreateLink_def GetRequestFormData_def SetHeader_def
          SetFormData_fresh SetAuthToken_def Header_Set_def Post_def Execute_def Let_def
          case_prod_beta cong: option.case_cong)
  have fields: "Request_client rq = p \<and> Request_Result rq = No_target \<and>
           Request_Error rq = HTTPErrorResponse_target \<and>
           Token rq = token \<and> AuthScheme rq = [] \<and>
           Header rq ''Content-Type'' = Some [''application/x-www-form-urlencoded''] \<and>
           FormData rq = (\<lambda>k. map_option (\<lambda>v. [v]) (CreateLink_form l k)) \<and>
           Method rq = ''POST'' \<and>
           URL rq = basePath g @ ''/'' @ CreateLinkEndpoint (Config g)"
    by (simp add: rq_def)
  show ?thesis
  proof (cases "checkForError m (fst (respond net rq)) (snd (respond net rq)) ''failed to create link''")
    case None
    with run fields show ?thesis by simp
  next
    case (Some e)
    with run fields show ?thesis by simp
  qed
qed

subsection \<open>The form of CreateLink\<close>

lemma assign_if_apply:
  "assign_if cond key v form k = (if cond \<and> k = key then Some v else form k)"
  by (simp add: assign_if_def)

lemma CreateLink_form_apply:
  "CreateLink_form l k =
     (if ExpirationUrl l \<noteq> [] \<and> k = ''expiration_url'' then Some (ExpirationUrl l)
      else if Domain' l \<noteq> 0 \<and> k = ''domain'' then Some (Itoa (Domain' l))
      else if ExpirationClicks l \<noteq> 0 \<and> k = ''expiration_clicks'' then Some (Itoa (ExpirationClicks l))
      else if ExpirationTime l \<noteq> [] \<and> k = ''expiration_time'' then Some (ExpirationTime l)
      else if ExpirationDate l \<noteq> [] \<and> k = ''expiration_date'' then Some (ExpirationDate l)
      else if Description l \<noteq> [] \<and> k = ''description'' then Some (Description l)
      else if Public l \<noteq> 0 \<and> k = ''public'' then Some (Itoa (Public l))
      else if Disable l \<noteq> 0 \<and> k = ''disable'' then Some (Itoa (Disable l))
      else if Password l \<noteq> [] \<and> k = ''password'' then Some (Password l)
      else if Alias l \<noteq> [] \<and> k = ''alias'' then Some (Alias l)
      else if Url l \<noteq> [] \<and> k = ''url'' then Some (Url l)
      else None)"
  by (simp add: CreateLink_form_def assign_if_apply Let_def)

lemma CreateLink_form_url: "CreateLink_form l ''url'' = (if Url l = [] then None else Some (Url l))"
  by (simp add: CreateLink_form_apply)
lemma CreateLink_form_alias: "CreateLink_form l ''alias'' = (if Alias l = [] then None else Some (Alias l))"
  by (simp add: CreateLink_form_apply)
lemma CreateLink_form_password:
  "CreateLink_form l ''password'' = (if Password l = [] then None else Some (Password l))"
  by (simp add: CreateLink_form_apply)
lemma CreateLink_form_disable:
  "CreateLink_form l ''disable'' = (if Disable l = 0 then None else Some (Itoa (Disable l)))"
  by (simp add: CreateLink_form_apply)
lemma CreateLink_form_public:
  "CreateLink_form l ''public'' = (if Public l = 0 then None else Some (Itoa (Public l)))"
  by (simp add: CreateLink_form_apply)
lemma CreateLink_form_description:
  "CreateLink_form l ''description'' = (if Description l = [] then None else Some (Description l))"
  by (simp add: CreateLink_form_apply)
lemma CreateLink_form_expiration_date:
  "CreateLink_form l ''expiration_date'' =
     (if ExpirationDate l = [] then None else Some (ExpirationDate l))"
  by (simp add: CreateLink_form_apply)
lemma CreateLink_form_expiration_time:
  "CreateLink_form l ''expiration_time'' =
     (if ExpirationTime l = [] then None else Some (ExpirationTime l))"
  by (simp add: CreateLink_form_apply)
lemma CreateLink_form_expiration_clicks:
  "CreateLink_form l ''expiration_clicks'' =
     (if ExpirationClicks l = 0 then None else Some (Itoa (ExpirationClicks l)))"
  by (simp add: CreateLink_form_apply)
lemma CreateLink_form_domain:
  "CreateLink_form l ''domain'' = (if Domain' l = 0 then None else Some (Itoa (Domain' l)))"
  by (simp add: CreateLink_form_apply)
lemma CreateLink_form_expiration_url:
  "CreateLink_form l ''expiration_url'' =
     (if ExpirationUrl l = [] then None else Some (ExpirationUrl l))"
  by (simp add: CreateLink_form_apply)

lemma CreateLink_form_other: "k \<notin> set form_field_names \<Longrightarrow> CreateLink_form l k = None"
  by (simp add: CreateLink_form_apply form_field_names_def)

lemma CreateLink_form_only_url:
  assumes "Url l \<noteq> []" "Alias l = []" "Password l = []" "Disable l = 0" "Public l = 0"
    "Description l = []" "ExpirationDate l = []" "ExpirationTime l = []"
    "ExpirationClicks l = 0" "Domain' l = 0" "ExpirationUrl l = []"
  shows "dom (CreateLink_form l) = {''url''}"
proof -
  have "CreateLink_form l k = (if k = ''url'' then Some (Url l) else None)" for k
    using assms by (simp add: CreateLink_form_apply)
  then show ?thesis
    by (auto simp: dom_def)
qed

lemma CreateLink_form_all:
  assumes "Url l \<noteq> []" "Alias l \<noteq> []" "Password l \<noteq> []" "Disable l \<noteq> 0" "Public l \<noteq> 0"
    "Description l \<noteq> []" "ExpirationDate l \<noteq> []" "ExpirationTime l \<noteq> []"
    "ExpirationClicks l \<noteq> 0" "Domain' l \<noteq> 0" "ExpirationUrl l \<noteq> []"
  shows "dom (CreateLink_form l) = set form_field_names"
proof -
  have "CreateLink_form l k \<noteq> None \<longleftrightarrow> k \<in> set form_field_names" for k
    using assms by (simp add: CreateLink_form_apply form_field_names_def)
  then show ?thesis
    by (auto simp: dom_def)
qed

text \<open>
  C4: a field of the request is in the form exactly when it is not empty (a string) or
  not zero (a number), under its own name and with its own value, the four numbers
  written by \<open>Itoa\<close>, whose output read as a decimal numeral is the number; no other
  name is in the form. With only \<open>Url\<close> set the form has the one key "url", with all
  eleven fields set it has the eleven keys, and the form data of the request that
  \<open>CreateLink\<close> posts is this form.
\<close>

theorem CreateLink_form_sparse:
  "CreateLink_form l ''url'' = (if Url l = [] then None else Some (Url l)) \<and>
   CreateLink_form l ''alias'' = (if Alias l = [] then None else Some (Alias l)) \<and>
   CreateLink_form l ''password'' = (if Password l = [] then None else Some (Password l)) \<and>
   CreateLink_form l ''disable'' = (if Disable l = 0 then None else Some (Itoa (Disable l))) \<and>
   CreateLink_form l ''public'' = (if Public l = 0 then None else Some (Itoa (Public l))) \<and>
   CreateLink_form l ''description'' =
     (if Description l = [] then None else Some (Description l)) \<and>
   CreateLink_form l ''expiration_date'' =
     (if ExpirationDate l = [] then None else Some (ExpirationDate l)) \<and>
   CreateLink_form l ''expiration_time'' =
     (if ExpirationTime l = [] then None else Some (ExpirationTime l)) \<and>
   CreateLink_form l ''expiration_clicks'' =
     (if ExpirationClicks l = 0 then None else Some (Itoa (ExpirationClicks l))) \<and>
   CreateLink_form l ''domain'' = (if Domain' l = 0 then None else Some (Itoa (Domain' l))) \<and>
   CreateLink_form l ''expiration_url'' =
     (if ExpirationUrl l = [] then None else Some (ExpirationUrl l)) \<and>
   (\<forall>k. k \<notin> set form_field_names \<longrightarrow> CreateLink_form l k = None) \<and>
   (\<forall>n. decimal_value (Itoa n) = Some n) \<and>
   (Url l \<noteq> [] \<and> Alias l = [] \<and> Password l = [] \<and> Disable l = 0 \<and> Public l = 0 \<and>
    Description l = [] \<and> ExpirationDate l = [] \<and> ExpirationTime l = [] \<and>
    ExpirationClicks l = 0 \<and> Domain' l = 0 \<and> ExpirationUrl l = [] \<longrightarrow>
      dom (CreateLink_form l) = {''url''}) \<and>
   (Url l \<noteq> [] \<and> Alias l \<noteq> [] \<and> Password l \<noteq> [] \<and> Disable l \<noteq> 0 \<and> Public l \<noteq> 0 \<and>
    Description l \<noteq> [] \<and> ExpirationDate l \<noteq> [] \<and> ExpirationTime l \<noteq> [] \<and>
    ExpirationClicks l \<noteq> 0 \<and> Domain' l \<noteq> 0 \<and> ExpirationUrl l \<noteq> [] \<longrightarrow>
      dom (CreateLink_form l) = set form_field_names) \<and>
   (\<forall>p c. restyClient g = Some p \<and> clients h p = Some c \<longrightarrow>
      (\<exists>out net' rq. CreateLink m ot result h net g ctx token (Some l) = Inr (out, net') \<and>
         sent net' = sent net @ [rq] \<and> Method rq = ''POST'' \<and>
         FormData rq = (\<lambda>k. map_option (\<lambda>v. [v]) (CreateLink_form l k))))"
proof -
  have "\<forall>p c. restyClient g = Some p \<and> clients h p = Some c \<longrightarrow>
      (\<exists>out net' rq. CreateLink m ot result h net g ctx token (Some l) = Inr (out, net') \<and>
         sent net' = sent net @ [rq] \<and> Method rq = ''POST'' \<and>
         FormData rq = (\<lambda>k. map_option (\<lambda>v. [v]) (CreateLink_form l k)))"
    using CreateLink_returns [of g _ h _ m ot result net ctx token l] by blast
  moreover have "\<forall>k. k \<notin> set form_field_names \<longrightarrow> CreateLink_form l k = None"
    by (simp add: CreateLink_form_other)
  moreover have "\<forall>n. decimal_value (Itoa n) = Some n"
    by (simp add: decimal_value_Itoa)
  moreover have "Url l \<noteq> [] \<and> Alias l = [] \<and> Password l = [] \<and> Disable l = 0 \<and> Public l = 0 \<and>
    Description l = [] \<and> ExpirationDate l = [] \<and> ExpirationTime l = [] \<and>
    ExpirationClicks l = 0 \<and> Domain' l = 0 \<and> ExpirationUrl l = [] \<longrightarrow>
      dom (CreateLink_form l) = {''url''}"
    using CreateLink_form_only_url [of l] by blast
  moreover have "Url l \<noteq> [] \<and> Alias l \<noteq> [] \<and> Password l \<noteq> [] \<and> Disable l \<noteq> 0 \<and> Public l \<noteq> 0 \<and>
    Description l \<noteq> [] \<and> ExpirationDate l \<noteq> [] \<and> ExpirationTime l \<noteq> [] \<and>
    ExpirationClicks l \<noteq> 0 \<and> Domain' l \<noteq> 0 \<and> ExpirationUrl l \<noteq> [] \<longrightarrow>
      dom (CreateLink_form l) = set form_field_names"
    using CreateLink_form_all [of l] by blast
  ultimately show ?thesis
    using CreateLink_form_url [of l] CreateLink_form_alias [of l] CreateLink_form_password [of l]
      CreateLink_form_disable [of l] CreateLink_form_public [of l]
      CreateLink_form_description [of l] CreateLink_form_expiration_date [of l]
      CreateLink_form_expiration_time [of l] CreateLink_form_expiration_clicks [of l]
      CreateLink_form_domain [of l] CreateLink_form_expiration_url [of l]
    by blast
qed

theorem CreateLink_form_sparse_witness:
  "dom (CreateLink_form example_link_url_only) = {''url''} \<and>
   CreateLink_form example_link_url_only ''url'' = Some ''https://example.com'' \<and>
   dom (CreateLink_form example_link_all) = set form_field_names \<and>
   CreateLink_form example_link_all ''disable'' = Some ''1'' \<and>
   CreateLink_form example_link_all ''public'' = Some ''1'' \<and>
   CreateLink_form example_link_all ''expiration_clicks'' = Some ''250'' \<and>
   CreateLink_form example_link_all ''domain'' = Some ''7'' \<and>
   CreateLink_form example_link_all ''colour'' = None \<and>
   decimal_value ''250'' = Some 250 \<and>
   (\<exists>out net' rq.
      CreateLink example_models example_opentracing example_zero_ResponseModel (snd example_client)
        (example_network (Some response_200, None)) (fst example_client) example_ctx ''token''
        (Some example_link_url_only) = Inr (out, net') \<and>
      sent net' = [rq] \<and> Method rq = ''POST'' \<and>
      FormData rq ''url'' = Some [''https://example.com''] \<and> FormData rq ''alias'' = None)"
proof -
  note only = CreateLink_form_sparse [where l = example_link_url_only and g = "fst example_client"
      and h = "snd example_client" and m = example_models and ot = example_opentracing
      and result = example_zero_ResponseModel and net = "example_network (Some response_200, None)"
      and ctx = example_ctx and token = "''token''"]
  note all = CreateLink_form_sparse [where l = example_link_all and g = "fst example_client"
      and h = "snd example_client" and m = example_models and ot = example_opentracing
      and result = example_zero_ResponseModel and net = "example_network (Some response_200, None)"
      and ctx = example_ctx and token = "''token''"]
  have a: "dom (CreateLink_form example_link_url_only) = {''url''}"
    using only by (simp add: example_link_url_only_def)
  have b: "CreateLink_form example_link_url_only ''url'' = Some ''https://example.com''"
    and b': "CreateLink_form example_link_url_only ''alias'' = None"
    using only by (simp_all add: example_link_url_only_def)
  have c: "dom (CreateLink_form example_link_all) = set form_field_names"
    using all by (simp add: example_link_all_def)
  have d: "CreateLink_form example_link_all ''disable'' = Some ''1''"
    "CreateLink_form example_link_all ''public'' = Some ''1''"
    "CreateLink_form example_link_all ''expiration_clicks'' = Some ''250''"
    "CreateLink_form example_link_all ''domain'' = Some ''7''"
    using all by (simp_all add: example_link_all_def Itoa_examples)
  have e: "CreateLink_form example_link_all ''colour'' = None"
    using all by (simp add: form_field_names_def)
  from all have "\<forall>n. decimal_value (Itoa n) = Some n"
    by (elim conjE) assumption
  then have f: "decimal_value ''250'' = Some 250"
    using Itoa_examples(3) by metis
  have valid: "restyClient (fst example_client) = Some 0 \<and>
               clients (snd example_client) 0 = Some createClient"
    by (simp add: example_client_eq)
  from only have "\<forall>p c. restyClient (fst example_client) = Some p \<and> clients (snd example_client) p = Some c \<longrightarrow>
      (\<exists>out net' rq.
         CreateLink example_models example_opentracing example_zero_ResponseModel (snd example_client)
           (example_network (Some response_200, None)) (fst example_client) example_ctx ''token''
           (Some example_link_url_only) = Inr (out, net') \<and>
         sent net' = sent (example_network (Some response_200, None)) @ [rq] \<and> Method rq = ''POST'' \<and>
         FormData rq = (\<lambda>k. map_option (\<lambda>v. [v]) (CreateLink_form example_link_url_only k)))"
    by (elim conjE) assumption
  with valid obtain out net' rq where
    "CreateLink example_models example_opentracing example_zero_ResponseModel (snd example_client)
        (example_network (Some response_200, None)) (fst example_client) example_ctx ''token''
        (Some example_link_url_only) = Inr (out, net')"
    "sent net' = sent (example_network (Some response_200, None)) @ [rq]" "Method rq = ''POST''"
    "FormData rq = (\<lambda>k. map_option (\<lambda>v. [v]) (CreateLink_form example_link_url_only k))"
    by blast
  with b b' have "\<exists>out net' rq.
      CreateLink example_models example_opentracing example_zero_ResponseModel (snd example_client)
        (example_network (Some response_200, None)) (fst example_client) example_ctx ''token''
        (Some example_link_url_only) = Inr (out, net') \<and>
      sent net' = [rq] \<and> Method rq = ''POST'' \<and>
      FormData rq ''url'' = Some [''https://example.com''] \<and> FormData rq ''alias'' = None"
    by (simp add: example_network_def)
  with a b c d e f show ?thesis
    by blast
qed

subsection \<open>What a call returns\<close>

lemma checkForError_success: "IsSuccess r \<Longrightarrow> checkForError m (Some r) None msg = None"
  by (simp add: checkForError_def IsSuccess_def IsError_def)


lemma GetLink_outcome:
  assumes "GetLink m ot result h net g ctx token i = Inr ((res, err), net')"
  shows "\<exists>rq. sent net' = sent net @ [rq] \<and> Request_Result rq = No_target \<and>
           (res, err) = (case checkForError m (fst (respond net rq)) (snd (respond net rq))
                                ''failed to get link'' of
                           Some e \<Rightarrow> (None, Some e) | None \<Rightarrow> (Some result, None))"
proof -
  from GetLink_Inr_valid [OF assms] obtain p c where
    "restyClient g = Some p" "clients h p = Some c"
    by blast
  from GetLink_returns [OF this, of m ot result net ctx token i] assms show ?thesis
    by auto
qed

lemma CreateLink_outcome:
  assumes "CreateLink m ot result h net g ctx token link = Inr ((res, err), net')"
  shows "\<exists>rq. sent net' = sent net @ [rq] \<and> Request_Result rq = No_target \<and>
           (res, err) = (case checkForError m (fst (respond net rq)) (snd (respond net rq))
                                ''failed to create link'' of
                           Some e \<Rightarrow> (None, Some e) | None \<Rightarrow> (Some result, None))"
proof -
  from CreateLink_Inr_valid [OF assms] obtain l p c where
    "link = Some l" "restyClient g = Some p" "clients h p = Some c"
    by blast
  with CreateLink_returns [of g p h c m ot result net ctx token l] assms show ?thesis
    by auto
qed



lemma outcome_zero:
  "(Some v, err) = (case ce of Some e \<Rightarrow> (None, Some e) | None \<Rightarrow> (Some result, None)) \<Longrightarrow>
     v = result \<and> err = None"
  by (cases ce) auto

lemma example_client_valid:
  "restyClient (fst example_client) = Some 0" "clients (snd example_client) 0 = Some createClient"
  by (simp_all add: example_client_eq)

lemma example_GetLink_success:
  "\<exists>net'. GetLink example_models example_opentracing example_zero_ResponseModel (snd example_client)
       (example_network (Some response_200, None)) (fst example_client) example_ctx token i
       = Inr ((Some example_zero_ResponseModel, None), net')"
proof -
  from GetLink_returns [OF example_client_valid, of example_models example_opentracing
      example_zero_ResponseModel "example_network (Some response_200, None)" example_ctx token i]
  obtain out net' rq where
    "GetLink example_models example_opentracing example_zero_ResponseModel (snd example_client)
       (example_network (Some response_200, None)) (fst example_client) example_ctx token i
       = Inr (out, net')"
    "out = (case checkForError example_models
                   (fst (respond (example_network (Some response_200, None)) rq))
                   (snd (respond (example_network (Some response_200, None)) rq))
                   ''failed to get link'' of
              Some e \<Rightarrow> (None, Some e) | None \<Rightarrow> (Some example_zero_ResponseModel, None))"
    by blast
  moreover have "checkForError example_models (Some response_200) None ''failed to get link'' = None"
    by (simp add: checkForError_success IsSuccess_def response_200_def)
  ultimately show ?thesis
    by (simp add: example_network_def)
qed

lemma example_CreateLink_success:
  "\<exists>net'. CreateLink example_models example_opentracing example_zero_ResponseModel
       (snd example_client) (example_network (Some response_200, None)) (fst example_client)
       example_ctx token (Some l)
       = Inr ((Some example_zero_ResponseModel, None), net')"
proof -
  from CreateLink_returns [OF example_client_valid, of example_models example_opentracing
      example_zero_ResponseModel "example_network (Some response_200, None)" example_ctx token l]
  obtain out net' rq where
    "CreateLink example_models example_opentracing example_zero_ResponseModel (snd example_client)
       (example_network (Some response_200, None)) (fst example_client) example_ctx token (Some l)
       = Inr (out, net')"
    "out = (case checkForError example_models
                   (fst (respond (example_network (Some response_200, None)) rq))
                   (snd (respond (example_network (Some response_200, None)) rq))
                   ''failed to create link'' of
              Some e \<Rightarrow> (None, Some e) | None \<Rightarrow> (Some example_zero_ResponseModel, None))"
    by blast
  moreover have "checkForError example_models (Some response_200) None ''failed to create link'' = None"
    by (simp add: checkForError_success IsSuccess_def response_200_def)
  ultimately show ?thesis
    by (simp add: example_network_def)
qed



text \<open>
  C9: a result that \<open>GetLink\<close> or \<open>CreateLink\<close> returns is the zero value the local
  variable \<open>result\<close> was declared with, whatever the response holds, and the request that
  was sent has no result registered as a decoding target.
\<close>

theorem result_is_zero_value:
  "(\<forall>v err net'. GetLink m ot result h net g ctx token i = Inr ((Some v, err), net') \<longrightarrow>
      v = result \<and> err = None \<and>
      (\<exists>rq. sent net' = sent net @ [rq] \<and> Request_Result rq = No_target)) \<and>
   (\<forall>v err net'. CreateLink m ot result h net g ctx token link = Inr ((Some v, err), net') \<longrightarrow>
      v = result \<and> err = None \<and>
      (\<exists>rq. sent net' = sent net @ [rq] \<and> Request_Result rq = No_target))"
proof (intro conjI allI impI)
  fix v err net'
  assume "GetLink m ot result h net g ctx token i = Inr ((Some v, err), net')"
  from GetLink_outcome [OF this] obtain rq where
    rq: "sent net' = sent net @ [rq]" "Request_Result rq = No_target" and
    out: "(Some v, err) = (case checkForError m (fst (respond net rq)) (snd (respond net rq))
                                  ''failed to get link'' of
                             Some e \<Rightarrow> (None, Some e) | None \<Rightarrow> (Some result, None))"
    by blast
  from outcome_zero [OF out] show "v = result" and "err = None"
    by simp_all
  from rq show "\<exists>rq. sent net' = sent net @ [rq] \<and> Request_Result rq = No_target"
    by blast
next
  fix v err net'
  assume "CreateLink m ot result h net g ctx token link = Inr ((Some v, err), net')"
  from CreateLink_outcome [OF this] obtain rq where
    rq: "sent net' = sent net @ [rq]" "Request_Result rq = No_target" and
    out: "(Some v, err) = (case checkForError m (fst (respond net rq)) (snd (respond net rq))
                                  ''failed to create link'' of
                             Some e \<Rightarrow> (None, Some e) | None \<Rightarrow> (Some result, None))"
    by blast
  from outcome_zero [OF out] show "v = result" and "err = None"
    by simp_all
  from rq show "\<exists>rq. sent net' = sent net @ [rq] \<and> Request_Result rq = No_target"
    by blast
qed

theorem result_is_zero_value_witness:
  "(\<exists>v err net'. GetLink example_models example_opentracing example_zero_ResponseModel
       (snd example_client) (example_network (Some response_200, None)) (fst example_client)
       example_ctx ''token'' ''abc123'' = Inr ((Some v, err), net') \<and>
       v = (0, []) \<and> err = None \<and> (\<exists>rq. sent net' = [rq] \<and> Request_Result rq = No_target)) \<and>
   (\<exists>v err net'. CreateLink example_models example_opentracing example_zero_ResponseModel
       (snd example_client) (example_network (Some response_200, None)) (fst example_client)
       example_ctx ''token'' (Some example_link_all) = Inr ((Some v, err), net') \<and>
       v = (0, []) \<and> err = None \<and> (\<exists>rq. sent net' = [rq] \<and> Request_Result rq = No_target))"
proof -
  note zero = result_is_zero_value [where g = "fst example_client" and h = "snd example_client"
      and m = example_models and ot = example_opentracing and result = example_zero_ResponseModel
      and net = "example_network (Some response_200, None)" and ctx = example_ctx
      and token = "''token''" and i = "''abc123''" and link = "Some example_link_all"]
  from example_GetLink_success [of "''token''" "''abc123''"] obtain n1 where
    g: "GetLink example_models example_opentracing example_zero_ResponseModel
       (snd example_client) (example_network (Some response_200, None)) (fst example_client)
       example_ctx ''token'' ''abc123'' = Inr ((Some example_zero_ResponseModel, None), n1)"
    by blast
  from zero [THEN conjunct1, rule_format, OF g]
  have g': "\<exists>rq. sent n1 = [rq] \<and> Request_Result rq = No_target"
    by (simp add: example_network_def)
  from example_CreateLink_success [of "''token''" example_link_all] obtain n2 where
    c: "CreateLink example_models example_opentracing example_zero_ResponseModel
       (snd example_client) (example_network (Some response_200, None)) (fst example_client)
       example_ctx ''token'' (Some example_link_all)
       = Inr ((Some example_zero_ResponseModel, None), n2)"
    by blast
  from zero [THEN conjunct2, rule_format, OF c]
  have c': "\<exists>rq. sent n2 = [rq] \<and> Request_Result rq = No_target"
    by (simp add: example_network_def)
  from g g' c c' show ?thesis
    by (auto simp: example_zero_ResponseModel_def)
qed




end
